theory Spec2Isabelle
  imports Complex_Main
begin

section \<open>Relevant segment extraction: the segment search of simple\_rag.ipynb\<close>

text \<open>
  The second notebook held in \<^verbatim>\<open>src/all_rag_techniques/simple_rag.ipynb\<close> defines
  \<^verbatim>\<open>get_best_segments(relevance_values, max_length, overall_max_length, minimum_value)\<close>:
  a \<^verbatim>\<open>while\<close> loop that, as long as \<^verbatim>\<open>total_length < overall_max_length\<close>, walks every
  window \<^verbatim>\<open>(start, end)\<close> with two nested \<^verbatim>\<open>for\<close> loops, keeps the window of greatest
  value, and appends it to \<^verbatim>\<open>best_segments\<close>.

  Modelling decisions.
  \<^item> Relevance values are Python floats; they are modelled as \<^typ>\<open>real\<close>, so sums are
    exact (no rounding, no NaN, no infinity).
  \<^item> \<^verbatim>\<open>max_length\<close> and \<^verbatim>\<open>overall_max_length\<close> are Python ints and may be zero or
    negative: they are \<^typ>\<open>int\<close>. Indices come from \<^verbatim>\<open>range\<close> over the list and are
    \<^typ>\<open>nat\<close>. The source's variable \<^verbatim>\<open>end\<close> is written \<open>stop\<close>.
  \<^item> An exception is a value \<open>Inl err\<close>; every loop hands it on unchanged.
\<close>

datatype error = NameError

type_synonym segment = "nat \<times> nat"

text \<open>The pair \<^verbatim>\<open>(best_value, best_segment)\<close> of the search; \<^verbatim>\<open>None\<close> is \<open>None\<close>.\<close>

type_synonym best = "real \<times> segment option"

subsection \<open>The overlap test\<close>

text \<open>
  The test of the inner loop is the line
  \<^verbatim>\<open>if any(start < seg_end and end > seg_start, seg_end in best_segments): continue\<close>.
  It is a call of \<^verbatim>\<open>any\<close> with two arguments, not a generator expression: there is no
  \<^verbatim>\<open>for seg_start, seg_end in best_segments\<close>. Python evaluates the arguments first, and
  the first one reads \<^verbatim>\<open>seg_end\<close>, a name that is bound nowhere in the function and
  nowhere in the notebook: the evaluation raises \<^verbatim>\<open>NameError\<close>, whatever \<^verbatim>\<open>start\<close>,
  \<^verbatim>\<open>end\<close> and \<^verbatim>\<open>best_segments\<close> are. (Were both names bound, the call itself would
  raise \<^verbatim>\<open>TypeError\<close>, since \<^verbatim>\<open>any\<close> takes exactly one argument.)

  The loops below take the outcome of that line as an argument \<open>chk\<close>, so that the
  lemmas about the ranges, the budget and the threshold do not depend on it;
  \<open>get_best_segments\<close> is the instance with the test as the source has it, and every
  theorem of a claim is stated on \<open>get_best_segments\<close>.
\<close>

type_synonym overlap_check = "nat \<Rightarrow> nat \<Rightarrow> segment list \<Rightarrow> error + bool"

definition overlap_check_src :: overlap_check where
  "overlap_check_src start stop best_segments = Inl NameError"

text \<open>
  The test that the comment above that line announces (``Check if this segment overlaps
  with any of the best segments''): the source's comparison
  \<^verbatim>\<open>start < seg_end and end > seg_start\<close>, taken over the pairs of \<^verbatim>\<open>best_segments\<close>.
  The source does not compute it. It is not part of the model of the function; it only
  shows, under C3, what the run on that input would be with the comparison in place.
\<close>

definition overlaps_selected :: overlap_check where
  "overlaps_selected start stop best_segments =
     Inr (list_ex (\<lambda>(seg_start, seg_end). start < seg_end \<and> stop > seg_start) best_segments)"

subsection \<open>The search for the best remaining segment\<close>

text \<open>\<^verbatim>\<open>sum(relevance_values[start:end])\<close>, for \<open>start < stop \<le> length relevance_values\<close>.\<close>

definition segment_value :: "real list \<Rightarrow> nat \<Rightarrow> nat \<Rightarrow> real" where
  "segment_value relevance_values start stop =
     sum_list (take (stop - start) (drop start relevance_values))"

text \<open>
  The body of the inner loop for one \<^verbatim>\<open>end\<close>, in the source's order: skip a negative
  ending point, run the overlap test, skip a window over budget, then compare the value
  with \<^verbatim>\<open>best_value\<close> (strictly, so the first window of greatest value stays).
  The index \<open>stop - 1\<close> is in range: \<open>stop\<close> runs over \<open>stops\<close> below.
\<close>

definition consider_window ::
  "overlap_check \<Rightarrow> real list \<Rightarrow> int \<Rightarrow> segment list \<Rightarrow> int \<Rightarrow> nat \<Rightarrow> nat \<Rightarrow> best
     \<Rightarrow> error + best" where
  "consider_window chk relevance_values overall_max_length best_segments total_length
       start stop b =
     (if relevance_values ! (stop - 1) < 0 then Inr b
      else case chk start stop best_segments of
             Inl err \<Rightarrow> Inl err
           | Inr True \<Rightarrow> Inr b
           | Inr False \<Rightarrow>
               if total_length + int stop - int start > overall_max_length then Inr b
               else if segment_value relevance_values start stop > fst b
                    then Inr (segment_value relevance_values start stop, Some (start, stop))
                    else Inr b)"

text \<open>\<^verbatim>\<open>range(start+1, min(start+max_length+1, len(relevance_values)+1))\<close>.\<close>

definition stops :: "real list \<Rightarrow> int \<Rightarrow> nat \<Rightarrow> nat list" where
  "stops relevance_values max_length start =
     [start + 1 ..< nat (min (int start + max_length + 1) (int (length relevance_values) + 1))]"

text \<open>The inner loop \<^verbatim>\<open>for end in range(...)\<close>.\<close>

fun for_stop ::
  "overlap_check \<Rightarrow> real list \<Rightarrow> int \<Rightarrow> segment list \<Rightarrow> int \<Rightarrow> nat \<Rightarrow> nat list \<Rightarrow> best
     \<Rightarrow> error + best" where
  "for_stop chk rv oml segs tot start [] b = Inr b"
| "for_stop chk rv oml segs tot start (stop # rest) b =
     (case consider_window chk rv oml segs tot start stop b of
        Inl err \<Rightarrow> Inl err
      | Inr b' \<Rightarrow> for_stop chk rv oml segs tot start rest b')"

text \<open>
  The outer loop \<^verbatim>\<open>for start in range(len(relevance_values))\<close>, which skips a negative
  starting point.
\<close>

fun for_start ::
  "overlap_check \<Rightarrow> real list \<Rightarrow> int \<Rightarrow> int \<Rightarrow> segment list \<Rightarrow> int \<Rightarrow> nat list \<Rightarrow> best
     \<Rightarrow> error + best" where
  "for_start chk rv ml oml segs tot [] b = Inr b"
| "for_start chk rv ml oml segs tot (start # rest) b =
     (if rv ! start < 0 then for_start chk rv ml oml segs tot rest b
      else case for_stop chk rv oml segs tot start (stops rv ml start) b of
             Inl err \<Rightarrow> Inl err
           | Inr b' \<Rightarrow> for_start chk rv ml oml segs tot rest b')"

text \<open>
  One pass of the search, from \<^verbatim>\<open>best_segment = None\<close> and \<^verbatim>\<open>best_value = -1000\<close>.
\<close>

definition best_remaining ::
  "overlap_check \<Rightarrow> real list \<Rightarrow> int \<Rightarrow> int \<Rightarrow> segment list \<Rightarrow> int \<Rightarrow> error + best" where
  "best_remaining chk relevance_values max_length overall_max_length best_segments total_length =
     for_start chk relevance_values max_length overall_max_length best_segments total_length
       [0 ..< length relevance_values] (- 1000, None)"

subsection \<open>A selected window is never empty\<close>

lemma consider_window_keeps_or_sets:
  "consider_window chk rv oml segs tot start stop b = Inr (v, Some (s, e)) \<Longrightarrow>
   snd b = Some (s, e) \<or> (s = start \<and> e = stop)"
  by (auto simp: consider_window_def split: if_splits sum.splits bool.splits)

lemma for_stop_nonempty:
  "for_stop chk rv oml segs tot start es b = Inr (v, Some (s, e)) \<Longrightarrow>
   (\<forall>x \<in> set es. start < x) \<Longrightarrow> (\<forall>s e. snd b = Some (s, e) \<longrightarrow> s < e) \<Longrightarrow> s < e"
proof (induction es arbitrary: b)
  case Nil
  then show ?case by auto
next
  case (Cons x es)
  then obtain b' where win: "consider_window chk rv oml segs tot start x b = Inr b'"
    and rest: "for_stop chk rv oml segs tot start es b' = Inr (v, Some (s, e))"
    by (auto split: sum.splits)
  have "\<forall>s e. snd b' = Some (s, e) \<longrightarrow> s < e"
    using consider_window_keeps_or_sets[of chk rv oml segs tot start x b "fst b'"]
      win Cons.prems(2,3)
    by (cases b') auto
  with Cons.IH[OF rest] Cons.prems(2) show ?case by auto
qed

lemma for_start_nonempty:
  "for_start chk rv ml oml segs tot ss b = Inr (v, Some (s, e)) \<Longrightarrow>
   (\<forall>s e. snd b = Some (s, e) \<longrightarrow> s < e) \<Longrightarrow> s < e"
proof (induction ss arbitrary: b)
  case Nil
  then show ?case by auto
next
  case (Cons x ss)
  show ?case
  proof (cases "rv ! x < 0")
    case True
    with Cons show ?thesis by auto
  next
    case False
    with Cons.prems obtain b' where
      inner: "for_stop chk rv oml segs tot x (stops rv ml x) b = Inr b'"
      and rest: "for_start chk rv ml oml segs tot ss b' = Inr (v, Some (s, e))"
      by (auto split: sum.splits)
    have "\<forall>s e. snd b' = Some (s, e) \<longrightarrow> s < e"
      using for_stop_nonempty[of chk rv oml segs tot x "stops rv ml x" b "fst b'"]
        inner Cons.prems(2)
      by (cases b') (auto simp: stops_def)
    with Cons.IH[OF rest] show ?thesis by auto
  qed
qed

lemma best_remaining_nonempty:
  "best_remaining chk rv ml oml segs tot = Inr (v, Some (s, e)) \<Longrightarrow> s < e"
  unfolding best_remaining_def by (erule for_start_nonempty) simp

subsection \<open>The greedy loop\<close>

text \<open>
  The \<^verbatim>\<open>while total_length < overall_max_length\<close> loop, on the state
  \<^verbatim>\<open>(best_segments, scores, total_length)\<close>. A pass that finds no window, or whose best
  value is below \<^verbatim>\<open>minimum_value\<close>, breaks; otherwise the window and its value are
  appended and its length is added to \<^verbatim>\<open>total_length\<close>. Every appended window has
  \<open>start < stop\<close>, so \<open>overall_max_length - total_length\<close> decreases: the loop ends on
  every input.
\<close>

function while_loop ::
  "overlap_check \<Rightarrow> real list \<Rightarrow> int \<Rightarrow> int \<Rightarrow> real \<Rightarrow> segment list \<Rightarrow> real list \<Rightarrow> int
     \<Rightarrow> error + (segment list \<times> real list)" where
  "while_loop chk rv ml oml mv best_segments scores total_length =
     (if total_length < oml then
        (case best_remaining chk rv ml oml best_segments total_length of
           Inl err \<Rightarrow> Inl err
         | Inr (best_value, None) \<Rightarrow> Inr (best_segments, scores)
         | Inr (best_value, Some (start, stop)) \<Rightarrow>
             if best_value < mv then Inr (best_segments, scores)
             else while_loop chk rv ml oml mv (best_segments @ [(start, stop)])
                    (scores @ [best_value]) (total_length + (int stop - int start)))
      else Inr (best_segments, scores))"
  by pat_completeness auto
termination
  apply (relation "measure (\<lambda>(chk, rv, ml, oml, mv, segs, scs, tot). nat (oml - tot))")
   apply simp
  apply (auto dest: best_remaining_nonempty)
  done

text \<open>
  The function from its three empty initial values. Its result is the pair
  \<^verbatim>\<open>(best_segments, scores)\<close> that the docstring promises and the last line,
  \<^verbatim>\<open>return best_segments, scores\<close>, names. (That line stands at column 0 of the cell,
  outside the \<^verbatim>\<open>def\<close>; the model reads it as the function's return.)
\<close>

definition get_best_segments_with ::
  "overlap_check \<Rightarrow> real list \<Rightarrow> int \<Rightarrow> int \<Rightarrow> real \<Rightarrow> error + (segment list \<times> real list)" where
  "get_best_segments_with chk relevance_values max_length overall_max_length minimum_value =
     while_loop chk relevance_values max_length overall_max_length minimum_value [] [] 0"

definition get_best_segments ::
  "real list \<Rightarrow> int \<Rightarrow> int \<Rightarrow> real \<Rightarrow> error + (segment list \<times> real list)" where
  "get_best_segments = get_best_segments_with overlap_check_src"

subsection \<open>Windows that a pass may select\<close>



subsection \<open>Chunk values\<close>

text \<open>
  \<^verbatim>\<open>rerank_chunks\<close> walks the reranker's results in rank order (\<^verbatim>\<open>enumerate\<close>, so
  the rank \<^verbatim>\<open>i\<close> starts at 0) and stores, for the chunk at rank \<^verbatim>\<open>i\<close>,
  \<^verbatim>\<open>np.exp(-i/decay_rate)*absolute_relevance_value\<close> with \<^verbatim>\<open>decay_rate = 30\<close>, where
  \<^verbatim>\<open>absolute_relevance_value = transform(score)\<close> and \<^verbatim>\<open>transform\<close> is
  \<^verbatim>\<open>beta.cdf(x, 0.4, 0.4)\<close> of scipy. That distribution function is not part of the
  repository; it maps the raw relevances in [0, 1] onto [0, 1], increasing, with 0 at 0
  and 1 at 1. The value is modelled on the transformed relevance, over the reals.
\<close>

definition decay_rate :: real where
  "decay_rate = 30"

definition chunk_value :: "nat \<Rightarrow> real \<Rightarrow> real" where
  "chunk_value i absolute_relevance_value =
     exp (- real i / decay_rate) * absolute_relevance_value"

section \<open>The function as it is written\<close>

lemma for_stop_src:
  "for_stop overlap_check_src rv oml segs tot start es b =
     (if \<exists>x \<in> set es. \<not> rv ! (x - 1) < 0 then Inl NameError else Inr b)"
  by (induction es) (auto simp: consider_window_def overlap_check_src_def)

lemma for_start_src:
  "for_start overlap_check_src rv ml oml segs tot ss b =
     (if \<exists>s \<in> set ss. \<not> rv ! s < 0 \<and> (\<exists>x \<in> set (stops rv ml s). \<not> rv ! (x - 1) < 0)
      then Inl NameError else Inr b)"
  by (induction ss) (auto simp: for_stop_src)

lemma first_stop:
  "s < length rv \<Longrightarrow> 0 < ml \<Longrightarrow> Suc s \<in> set (stops rv ml s)"
  by (auto simp: stops_def)

lemma stops_empty:
  "ml \<le> 0 \<Longrightarrow> stops rv ml s = []"
  by (auto simp: stops_def)

lemma best_remaining_src:
  "best_remaining overlap_check_src rv ml oml segs tot =
     (if 0 < ml \<and> (\<exists>i < length rv. 0 \<le> rv ! i) then Inl NameError else Inr (- 1000, None))"
proof (cases "0 < ml")
  case True
  have "(\<exists>s \<in> set [0 ..< length rv].
           \<not> rv ! s < 0 \<and> (\<exists>x \<in> set (stops rv ml s). \<not> rv ! (x - 1) < 0))
        \<longleftrightarrow> (\<exists>i < length rv. 0 \<le> rv ! i)" (is "?L \<longleftrightarrow> ?R")
  proof
    assume ?L
    then show ?R by (auto simp: not_less)
  next
    assume ?R
    then obtain i where i: "i < length rv" "0 \<le> rv ! i" by blast
    with True have "Suc i \<in> set (stops rv ml i)" by (simp add: first_stop)
    with i show ?L by (intro bexI[of _ i] conjI bexI[of _ "Suc i"]) (auto simp: not_less)
  qed
  with True show ?thesis
    unfolding best_remaining_def for_start_src by simp
next
  case False
  then show ?thesis
    unfolding best_remaining_def for_start_src by (simp add: stops_empty)
qed

text \<open>
  The whole behaviour of the function as written: it raises \<^verbatim>\<open>NameError\<close> as soon as
  the loop is entered with a positive \<^verbatim>\<open>max_length\<close> and some value is not negative
  (the window of that one chunk reaches the overlap test); on every other input it
  ends with two empty lists.
\<close>

lemma get_best_segments_src:
  "get_best_segments rv ml oml mv =
     (if 0 < oml \<and> 0 < ml \<and> (\<exists>i < length rv. 0 \<le> rv ! i)
      then Inl NameError else Inr ([], []))"
  unfolding get_best_segments_def get_best_segments_with_def
  by (subst while_loop.simps) (simp add: best_remaining_src)


text \<open>
  C2 (the function raises no exception on well-formed numeric input). The code raises:
  with one chunk of relevance 0.5, \<^verbatim>\<open>max_length = 1\<close>, \<^verbatim>\<open>overall_max_length = 1\<close> and
  \<^verbatim>\<open>minimum_value = 0\<close>, the window (0, 1) passes both sign tests and the overlap test
  raises \<^verbatim>\<open>NameError\<close>.
\<close>

theorem get_best_segments_raises:
  "get_best_segments [1 / 2] 1 1 0 = Inl NameError"
  by (simp add: get_best_segments_src)

text \<open>
  C3 (the single-spike input returns the one segment (2, 4) with score 1.2). The code
  raises \<^verbatim>\<open>NameError\<close> there: the first window with non-negative ends is (2, 3), and
  it goes to the overlap test. With the announced test in its place the run gives what
  the claim says, the score being 0.4 + 0.8 over the reals.
\<close>

theorem single_spike_raises:
  "get_best_segments [- (1 / 5), - (1 / 5), 2 / 5, 4 / 5, - (1 / 5)] 5 5 (1 / 2)
     = Inl NameError \<and>
   get_best_segments_with overlaps_selected
       [- (1 / 5), - (1 / 5), 2 / 5, 4 / 5, - (1 / 5)] 5 5 (1 / 2)
     = Inr ([(2, 4)], [6 / 5])"
  by code_simp



text \<open>
  C7 (a non-positive \<^verbatim>\<open>max_length\<close> or \<^verbatim>\<open>overall_max_length\<close> is reported as an
  invalid argument). The function validates nothing. As stated the claim fails: with
  \<^verbatim>\<open>max_length = 0\<close>, and with \<^verbatim>\<open>overall_max_length = 0\<close>, the call ends normally with
  two empty lists.
\<close>

theorem nonpositive_parameter_counterexample:
  "get_best_segments [1 / 2] 0 1 0 = Inr ([], []) \<and>
   get_best_segments [1 / 2] 1 0 0 = Inr ([], [])"
  by (simp add: get_best_segments_src)

text \<open>
  C7 as amended: called with \<^verbatim>\<open>max_length <= 0\<close> or \<^verbatim>\<open>overall_max_length <= 0\<close>, the
  function checks neither parameter and raises no invalid-argument error; its loop
  selects no segment, and the lists of segments and of scores are both empty when it
  ends.
\<close>

theorem nonpositive_parameter_returns_empty:
  "ml \<le> 0 \<or> oml \<le> 0 \<Longrightarrow> get_best_segments rv ml oml mv = Inr ([], [])"
  by (auto simp: get_best_segments_src)

theorem nonpositive_parameter_returns_empty_witness:
  "((- 3 :: int) \<le> 0 \<or> (5 :: int) \<le> 0) \<and>
   get_best_segments [2 / 5, 4 / 5] (- 3) 5 (7 / 10) = Inr ([], [])"
  using nonpositive_parameter_returns_empty[of "- 3" 5 "[2 / 5, 4 / 5]" "7 / 10"] by simp

section \<open>What the loops guarantee, whatever the overlap test answers\<close>

























section \<open>The decay of the chunk value with the rank\<close>

lemma decay_le_one: "exp (- real i / decay_rate) \<le> 1"
  by (simp add: decay_rate_def)

lemma decay_strict: "i < j \<Longrightarrow> exp (- real j / decay_rate) < exp (- real i / decay_rate)"
  by (simp add: decay_rate_def)

text \<open>
  C9 (for every fixed raw relevance in [0, 1] the chunk value is strictly decreasing in
  the rank). As stated the claim fails at raw relevance 0, whose transformed relevance
  is 0: the value is 0 at rank 0 and at rank 1.
\<close>

theorem chunk_value_constant_counterexample:
  "\<not> chunk_value 1 0 < chunk_value 0 0"
  by (simp add: chunk_value_def)

text \<open>
  C9 as amended: for a transformed relevance \<open>t > 0\<close> (every raw relevance but 0) the
  chunk value is strictly decreasing in the rank; for \<open>t = 0\<close> it is 0 at every rank;
  raw relevance 1.0 (\<open>t = 1\<close>) at rank 0 has the value 1, and no rank and no \<open>t \<le> 1\<close>
  gives more.
\<close>

theorem chunk_value_rank_decay:
  "(0 < t \<longrightarrow> i < j \<longrightarrow> chunk_value j t < chunk_value i t) \<and>
   chunk_value i 0 = 0 \<and>
   chunk_value 0 1 = 1 \<and>
   (t \<le> 1 \<longrightarrow> chunk_value i t \<le> chunk_value 0 1)"
proof (intro conjI impI)
  assume "0 < t" "i < j"
  then show "chunk_value j t < chunk_value i t"
    unfolding chunk_value_def using decay_strict[of i j] by simp
next
  show "chunk_value i 0 = 0" by (simp add: chunk_value_def)
next
  show one: "chunk_value 0 1 = 1" by (simp add: chunk_value_def)
  assume "t \<le> 1"
  show "chunk_value i t \<le> chunk_value 0 1"
  proof (cases "0 \<le> t")
    case True
    have "exp (- real i / decay_rate) * t \<le> 1 * 1"
      using decay_le_one[of i] \<open>t \<le> 1\<close> True by (intro mult_mono) simp_all
    with one show ?thesis by (simp add: chunk_value_def)
  next
    case False
    then have "exp (- real i / decay_rate) * t \<le> 0"
      by (simp add: mult_le_0_iff)
    with one show ?thesis by (simp add: chunk_value_def)
  qed
qed

theorem chunk_value_rank_decay_witness:
  "0 < (1 / 2 :: real) \<and> (1 :: nat) < 2 \<and> chunk_value 2 (1 / 2) < chunk_value 1 (1 / 2) \<and>
   (1 / 2 :: real) \<le> 1 \<and> chunk_value 1 (1 / 2) \<le> chunk_value 0 1"
  using chunk_value_rank_decay[of "1 / 2" 1 2] by simp

end
